theory Spec2Isabelle
  imports Complex_Main
begin

section \<open>Go library functions used by the resource-accounting code\<close>

text \<open>
  Go strings are byte sequences; they are modelled as \<open>string\<close> (a list of 8-bit
  characters). The kernel files read by the code are ASCII, and the white space of
  \<open>strings.Fields\<close> and \<open>strings.TrimSpace\<close> is the ASCII white space of Go's fast
  path (tab, line feed, vertical tab, form feed, carriage return, space). On a string
  with a byte of \<open>0x80\<close> or above Go decodes UTF-8 and also takes U+0085, U+00A0 and
  the other Unicode white space for a separator; \<open>Fields\<close> and \<open>TrimSpace\<close> below
  are the two functions on ASCII strings, which \<open>isASCII\<close> recognises.
\<close>

definition isASCII :: "string \<Rightarrow> bool" where
  "isASCII s = list_all (\<lambda>c. (of_char c :: nat) < 128) s"

definition newline :: char where
  "newline = CHR 0x0A"

definition isSpace :: "char \<Rightarrow> bool" where
  "isSpace c = (c = CHR 0x09 \<or> c = CHR 0x0A \<or> c = CHR 0x0B \<or> c = CHR 0x0C
                \<or> c = CHR 0x0D \<or> c = CHR 0x20)"

definition TrimSpace :: "string \<Rightarrow> string" where
  "TrimSpace s = rev (dropWhile isSpace (rev (dropWhile isSpace s)))"

text \<open>\<open>strings.Fields\<close>: the maximal runs of non-space characters, in order.\<close>

fun Fields :: "string \<Rightarrow> string list" where
  "Fields [] = []"
| "Fields (c # cs) =
     (if isSpace c then Fields cs
      else (case cs of
              [] \<Rightarrow> [[c]]
            | d # ds \<Rightarrow>
                if isSpace d then [c] # Fields cs
                else (case Fields cs of t # ts \<Rightarrow> (c # t) # ts | [] \<Rightarrow> [[c]])))"

text \<open>\<open>strings.Split(s, sep)\<close> for a one-byte separator: always at least one piece.\<close>

fun Split :: "char \<Rightarrow> string \<Rightarrow> string list" where
  "Split sep [] = [[]]"
| "Split sep (x # xs) =
     (if x = sep then [] # Split sep xs
      else (case Split sep xs of p # ps \<Rightarrow> (x # p) # ps | [] \<Rightarrow> [[x]]))"

text \<open>\<open>strings.SplitN(s, sep, n)\<close> for \<open>n \<ge> 0\<close>: at most \<open>n\<close> pieces, the last
  one the unsplit rest.\<close>

fun SplitN :: "char \<Rightarrow> nat \<Rightarrow> string \<Rightarrow> string list" where
  "SplitN sep n [] = (if n = 0 then [] else [[]])"
| "SplitN sep n (x # xs) =
     (if n = 0 then []
      else if n = 1 then [x # xs]
      else if x = sep then [] # SplitN sep (n - 1) xs
      else (case SplitN sep n xs of p # ps \<Rightarrow> (x # p) # ps | [] \<Rightarrow> [[x]]))"

definition HasPrefix :: "string \<Rightarrow> string \<Rightarrow> bool" where
  "HasPrefix s pre = (take (length pre) s = pre)"

subsection \<open>Numbers\<close>

text \<open>
  Go's \<open>int64\<close> and \<open>int\<close> (64 bits on the supported platforms) are modelled as \<open>int\<close>
  with the two's-complement wrap-around written out; \<open>uint64\<close> as \<open>nat\<close> reduced
  modulo \<open>2 ^ 64\<close>.
\<close>

definition wrap64 :: "int \<Rightarrow> int" where
  "wrap64 x = (x + 2 ^ 63) mod 2 ^ 64 - 2 ^ 63"

definition add64 :: "int \<Rightarrow> int \<Rightarrow> int" where
  "add64 a b = wrap64 (a + b)"

definition sub64 :: "int \<Rightarrow> int \<Rightarrow> int" where
  "sub64 a b = wrap64 (a - b)"

definition addu64 :: "nat \<Rightarrow> nat \<Rightarrow> nat" where
  "addu64 a b = (a + b) mod 2 ^ 64"

definition int64_of_uint64 :: "nat \<Rightarrow> int" where
  "int64_of_uint64 u = wrap64 (int u)"

datatype error =
    PathError string
  | NumError string
  | LibError string
  | Wrapped string error

text \<open>The value of a decimal digit, as \<open>strconv\<close> computes it from the byte.\<close>

definition digit :: "char \<Rightarrow> nat option" where
  "digit c =
     (let b = (of_char c :: nat)
      in if of_char (CHR ''0'') \<le> b \<and> b \<le> of_char (CHR ''9'')
         then Some (b - of_char (CHR ''0''))
         else None)"

declare digit_def [simp]

fun digits_val :: "string \<Rightarrow> nat \<Rightarrow> nat option" where
  "digits_val [] acc = Some acc"
| "digits_val (c # cs) acc =
     (case digit c of None \<Rightarrow> None | Some d \<Rightarrow> digits_val cs (10 * acc + d))"

text \<open>
  \<open>strconv.ParseInt(s, 10, 64)\<close>: an optional sign, then one or more decimal digits; the
  value must fit an \<open>int64\<close>. Syntax and range failures are both a \<open>*NumError\<close>.
\<close>

definition ParseInt :: "string \<Rightarrow> error + int" where
  "ParseInt s =
     (case s of
        [] \<Rightarrow> Inl (NumError s)
      | c # cs \<Rightarrow>
          (let neg = (c = CHR ''-'');
               body = (if c = CHR ''+'' \<or> c = CHR ''-'' then cs else s)
           in if body = [] then Inl (NumError s)
              else (case digits_val body 0 of
                      None \<Rightarrow> Inl (NumError s)
                    | Some un \<Rightarrow>
                        if \<not> neg \<and> un \<ge> 2 ^ 63 then Inl (NumError s)
                        else if neg \<and> un > 2 ^ 63 then Inl (NumError s)
                        else Inr (if neg then - int un else int un))))"

text \<open>\<open>strconv.Atoi\<close> on a 64-bit platform accepts what \<open>ParseInt(s, 10, 64)\<close> accepts.\<close>

definition Atoi :: "string \<Rightarrow> error + int" where
  "Atoi s = ParseInt s"

definition digit_char :: "nat \<Rightarrow> char" where
  "digit_char d = (''0123456789'' ! d)"

function nat_digits :: "nat \<Rightarrow> string" where
  "nat_digits n = (if n < 10 then [digit_char n] else nat_digits (n div 10) @ [digit_char (n mod 10)])"
  by pat_completeness auto
termination
  by (relation "measure id") auto

declare nat_digits.simps [simp del]

definition Itoa :: "int \<Rightarrow> string" where
  "Itoa i = (if i < 0 then CHR ''-'' # nat_digits (nat (- i)) else nat_digits (nat i))"

subsection \<open>Paths\<close>

text \<open>
  \<open>filepath.Clean\<close> on a Unix path, by components: empty and \<open>.\<close> components vanish,
  \<open>..\<close> removes the component before it (at the root it vanishes, at the start of a
  relative path it stays). The second argument is the stack of components kept so far,
  last one first.
\<close>

fun clean_comps :: "bool \<Rightarrow> string list \<Rightarrow> string list \<Rightarrow> string list" where
  "clean_comps rooted acc [] = rev acc"
| "clean_comps rooted acc (c # cs) =
     (if c = [] \<or> c = ''.'' then clean_comps rooted acc cs
      else if c = ''..'' then
        (case acc of
           [] \<Rightarrow> if rooted then clean_comps rooted acc cs else clean_comps rooted [c] cs
         | a # as \<Rightarrow>
             if a = ''..'' then clean_comps rooted (c # acc) cs
             else clean_comps rooted as cs)
      else clean_comps rooted (c # acc) cs)"

fun join_with :: "char \<Rightarrow> string list \<Rightarrow> string" where
  "join_with sep [] = []"
| "join_with sep [x] = x"
| "join_with sep (x # y # ys) = x @ sep # join_with sep (y # ys)"

definition Clean :: "string \<Rightarrow> string" where
  "Clean p =
     (if p = [] then ''.''
      else (let rooted = (hd p = CHR ''/'');
                body = join_with (CHR ''/'') (clean_comps rooted [] (Split (CHR ''/'') p));
                out = (if rooted then CHR ''/'' # body else body)
            in if out = [] then ''.'' else out))"

text \<open>\<open>filepath.Join\<close>: leading empty elements are dropped, the rest joined with a
  slash and cleaned; no non-empty element gives the empty string.\<close>

definition Join :: "string list \<Rightarrow> string" where
  "Join elems =
     (case dropWhile (\<lambda>e. e = []) elems of
        [] \<Rightarrow> []
      | es \<Rightarrow> Clean (join_with (CHR ''/'') es))"

section \<open>Data model\<close>

datatype CGroupVersion = CGroupV1 | CGroupV2 | CGroupUnknown

datatype CPUQuotaStatus = CPUQuotaUndefined | CPUQuotaUsed | CPUQuotaMinUsed

text \<open>The build target: the \<open>linux\<close> and \<open>darwin\<close> files define the same functions.\<close>

datatype goos = Linux | Darwin

text \<open>
  A value of Go's empty interface, as \<open>ctx.Value\<close> returns it: \<open>nil\<close> when the key is
  absent, else a dynamically typed value. A type assertion \<open>v.(string)\<close> panics unless
  \<open>v\<close> holds a string; \<open>v == ""\<close> is true only for the string \<open>""\<close>.
\<close>

datatype any = AnyNil | AnyStr string | AnyInt int | AnyOther

text \<open>How a call ends: it returns, it panics, or \<open>log.Fatalf\<close> ends the process.\<close>

datatype 'a outcome = Returns 'a | Panics | Exits

text \<open>
  \<open>float64\<close> arithmetic is a parameter: \<open>'f\<close> is the type of \<open>float64\<close> values,
  \<open>f_of_int\<close> the conversion \<open>float64(n)\<close> (also of integral literals such as
  \<open>1000000.0\<close>), \<open>f_div\<close>, \<open>f_mul\<close>, \<open>f_sub\<close> the operators. \<open>DefaultRoundFunc\<close>
  of package \<open>runtime\<close> is not part of the sources at hand and is a parameter too.
\<close>

record 'f float64_lib =
  f_of_int :: "int \<Rightarrow> 'f"
  f_div :: "'f \<Rightarrow> 'f \<Rightarrow> 'f"
  f_mul :: "'f \<Rightarrow> 'f \<Rightarrow> 'f"
  f_sub :: "'f \<Rightarrow> 'f \<Rightarrow> 'f"
  DefaultRoundFunc :: "'f \<Rightarrow> int"

text \<open>The fields of containerd's cgroup v1 \<open>Metrics\<close> that the code reads (\<open>uint64\<close>).\<close>

record v1_metrics =
  Memory_Usage_Limit :: nat
  Memory_Usage_Usage :: nat
  Memory_Cache :: nat
  CPU_Usage_Total :: nat

text \<open>The fields of gopsutil's \<open>VirtualMemoryStat\<close> that the code reads (\<open>uint64\<close>).\<close>

record vm_stat =
  vm_Total :: nat
  vm_Free :: nat
  vm_Buffers :: nat
  vm_Cached :: nat

text \<open>
  What the code observes of the machine. \<open>files\<close> is \<open>os.ReadFile\<close> (\<open>None\<close>: the
  read fails), \<open>files_later\<close> the same after the sampler's one-second sleep,
  \<open>stat_ok\<close> whether \<open>os.Stat\<close> succeeds, \<open>mountinfo\<close> the lines a scanner yields from
  \<open>/proc/self/mountinfo\<close> (\<open>None\<close>: it cannot be opened). The remaining fields are
  the results of library calls whose code is outside the sources: \<open>runtime.NumCPU\<close>,
  \<open>mem.VirtualMemory\<close>, \<open>cgroups.Load\<close> on \<open>exec.Hierarchy(root)\<close> and
  \<open>exec.PidPath(p)\<close>, \<open>Stat\<close> on the loaded cgroup (before and after the sleep; the
  result may be a nil pointer), \<open>cpu.Percent(time.Second, percpu)\<close>, and the cgroup v1
  quota resolver \<open>GetCPUQuotaToCPUCntByPidFroCgroups1\<close> of the Linux build (arguments:
  root, pid, minimum).
\<close>

record 'f os_env =
  GOOS :: goos
  files :: "string \<Rightarrow> string option"
  files_later :: "string \<Rightarrow> string option"
  stat_ok :: "string \<Rightarrow> bool"
  mountinfo :: "string list option"
  NumCPU :: int
  VirtualMemory :: "error + vm_stat"
  cgroups_Load :: "string \<Rightarrow> int \<Rightarrow> error option"
  cgroup_Stat :: "string \<Rightarrow> int \<Rightarrow> error + v1_metrics option"
  cgroup_Stat_later :: "string \<Rightarrow> int \<Rightarrow> error + v1_metrics option"
  cpu_Percent :: "bool \<Rightarrow> error + 'f list"
  GetCPUQuotaToCPUCntByPidFroCgroups1_linux :: "string \<Rightarrow> string \<Rightarrow> int \<Rightarrow> int \<times> CPUQuotaStatus \<times> error option"

text \<open>The values the code looks up in its \<open>context.Context\<close>.\<close>

record go_context =
  NSTargetFlagName :: any
  cgroup_root :: any
  cpuCount :: any

section \<open>Package cgroups: version detection\<close>

definition CGroupV1FS :: string where
  "CGroupV1FS = ''cgroup''"

definition CGroupV2FS :: string where
  "CGroupV2FS = ''cgroup2''"

text \<open>The first scan of \<open>DetectCGroupVersion\<close>: does some line return \<open>CGroupV2\<close>?\<close>

fun scan_v2 :: "string \<Rightarrow> string list \<Rightarrow> bool" where
  "scan_v2 cgroupRoot [] = False"
| "scan_v2 cgroupRoot (line # rest) =
     (let fields = Fields line
      in if length fields \<ge> 7
         then (let mountPoint = fields ! 4; fstype = fields ! 6
               in if fstype = CGroupV2FS \<and> HasPrefix mountPoint cgroupRoot then True
                  else scan_v2 cgroupRoot rest)
         else scan_v2 cgroupRoot rest)"

text \<open>The second scan: does some line return \<open>CGroupV1\<close>?\<close>

fun scan_v1 :: "string list \<Rightarrow> bool" where
  "scan_v1 [] = False"
| "scan_v1 (line # rest) =
     (let fields = Fields line
      in if length fields \<ge> 7
         then (let fstype = fields ! 6
               in if fstype = CGroupV1FS then True else scan_v1 rest)
         else scan_v1 rest)"

definition DetectCGroupVersion_linux :: "'f os_env \<Rightarrow> string \<Rightarrow> CGroupVersion" where
  "DetectCGroupVersion_linux env root0 =
     (let cgroupRoot = (if root0 = [] then ''/sys/fs/cgroup'' else root0);
          unifiedMount = Join [cgroupRoot, ''cgroup.controllers'']
      in if stat_ok env unifiedMount then CGroupV2
         else if (case mountinfo env of None \<Rightarrow> False | Some ls \<Rightarrow> scan_v2 cgroupRoot ls)
         then CGroupV2
         else if (case mountinfo env of None \<Rightarrow> False | Some ls \<Rightarrow> scan_v1 ls)
         then CGroupV1
         else CGroupV1)"

definition DetectCGroupVersion_darwin :: "'f os_env \<Rightarrow> string \<Rightarrow> CGroupVersion" where
  "DetectCGroupVersion_darwin env root0 = CGroupUnknown"

definition DetectCGroupVersion :: "'f os_env \<Rightarrow> string \<Rightarrow> CGroupVersion" where
  "DetectCGroupVersion env root0 =
     (case GOOS env of
        Linux \<Rightarrow> DetectCGroupVersion_linux env root0
      | Darwin \<Rightarrow> DetectCGroupVersion_darwin env root0)"

section \<open>Package cgroups: the cgroup v2 files\<close>

text \<open>The loop of \<open>FindCGroupV2Path\<close> over the lines of \<open>/proc/PID/cgroup\<close>.\<close>

fun find_v2_line :: "string \<Rightarrow> string list \<Rightarrow> string" where
  "find_v2_line cgroupRoot [] = []"
| "find_v2_line cgroupRoot (line # rest) =
     (if line = [] then find_v2_line cgroupRoot rest
      else (let parts = SplitN (CHR '':'') 3 line
            in if length parts = 3 \<and> parts ! 0 = ''0'' \<and> parts ! 1 = []
               then Join [cgroupRoot, parts ! 2]
               else find_v2_line cgroupRoot rest))"

definition FindCGroupV2Path_linux :: "'f os_env \<Rightarrow> string \<Rightarrow> string \<Rightarrow> string \<times> error option" where
  "FindCGroupV2Path_linux env pid root0 =
     (let cgroupRoot = (if root0 = [] then ''/sys/fs/cgroup'' else root0);
          cgroupFile = Join [''/proc'', pid, ''cgroup'']
      in case files env cgroupFile of
           None \<Rightarrow> ([], Some (PathError cgroupFile))
         | Some content \<Rightarrow> (find_v2_line cgroupRoot (Split newline content), None))"

definition FindCGroupV2Path :: "'f os_env \<Rightarrow> string \<Rightarrow> string \<Rightarrow> string \<times> error option" where
  "FindCGroupV2Path env pid root0 =
     (case GOOS env of
        Linux \<Rightarrow> FindCGroupV2Path_linux env pid root0
      | Darwin \<Rightarrow> ([], None))"

definition CPUQuota_linux :: "'f float64_lib \<Rightarrow> 'f os_env \<Rightarrow> string \<Rightarrow> 'f \<times> bool \<times> error option" where
  "CPUQuota_linux F env path =
     (let quotaFile = Join [path, ''cpu.max'']
      in case files env quotaFile of
           None \<Rightarrow> (f_of_int F 0, False, Some (PathError quotaFile))
         | Some content \<Rightarrow>
             (let quotaStr = TrimSpace content;
                  parts = Fields quotaStr
              in if length parts \<noteq> 2 then (f_of_int F 0, False, None)
                 else if parts ! 0 = ''max'' then (f_of_int F 0, False, None)
                 else (case ParseInt (parts ! 0) of
                         Inl err \<Rightarrow> (f_of_int F 0, False, Some err)
                       | Inr quota \<Rightarrow>
                           (case ParseInt (parts ! 1) of
                              Inl err \<Rightarrow> (f_of_int F 0, False, Some err)
                            | Inr period \<Rightarrow>
                                if period \<le> 0 then (f_of_int F 0, False, None)
                                else (f_div F (f_of_int F quota) (f_of_int F period), True, None)))))"

definition CPUQuota :: "'f float64_lib \<Rightarrow> 'f os_env \<Rightarrow> string \<Rightarrow> 'f \<times> bool \<times> error option" where
  "CPUQuota F env path =
     (case GOOS env of
        Linux \<Rightarrow> CPUQuota_linux F env path
      | Darwin \<Rightarrow> (f_of_int F 0, False, None))"

definition MemoryLimit_linux :: "'f os_env \<Rightarrow> string \<Rightarrow> int \<times> bool \<times> error option" where
  "MemoryLimit_linux env path =
     (let limitFile = Join [path, ''memory.max'']
      in case files env limitFile of
           None \<Rightarrow> (0, False, Some (PathError limitFile))
         | Some content \<Rightarrow>
             (let limitStr = TrimSpace content
              in if limitStr = ''max'' then (0, False, None)
                 else (case ParseInt limitStr of
                         Inl err \<Rightarrow> (0, False, Some err)
                       | Inr limit \<Rightarrow> (limit, True, None))))"

definition MemoryLimit :: "'f os_env \<Rightarrow> string \<Rightarrow> int \<times> bool \<times> error option" where
  "MemoryLimit env path =
     (case GOOS env of
        Linux \<Rightarrow> MemoryLimit_linux env path
      | Darwin \<Rightarrow> (0, False, None))"

section \<open>Package runtime and automaxprocs: the CPU quota\<close>

definition GetCPUQuotaToCPUCntByPidForCgroups2_linux ::
  "'f float64_lib \<Rightarrow> 'f os_env \<Rightarrow> string \<Rightarrow> string \<Rightarrow> int \<Rightarrow> ('f \<Rightarrow> int) option
     \<Rightarrow> int \<times> CPUQuotaStatus \<times> error option" where
  "GetCPUQuotaToCPUCntByPidForCgroups2_linux F env actualCGRoot pid minValue round0 =
     (let round = (case round0 of None \<Rightarrow> DefaultRoundFunc F | Some r \<Rightarrow> r)
      in case FindCGroupV2Path env pid actualCGRoot of
           (cgroupPath, Some err) \<Rightarrow> (- 1, CPUQuotaUndefined, Some err)
         | (cgroupPath, None) \<Rightarrow>
             if cgroupPath = [] then (- 1, CPUQuotaUndefined, None)
             else (case CPUQuota F env cgroupPath of
                     (quota, defined, Some err) \<Rightarrow> (- 1, CPUQuotaUndefined, Some err)
                   | (quota, defined, None) \<Rightarrow>
                       if \<not> defined then (- 1, CPUQuotaUndefined, None)
                       else (let maxProcs = round quota
                             in if minValue > 0 \<and> maxProcs < minValue
                                then (minValue, CPUQuotaMinUsed, None)
                                else (maxProcs, CPUQuotaUsed, None))))"

definition GetCPUQuotaToCPUCntByPidForCgroups2 ::
  "'f float64_lib \<Rightarrow> 'f os_env \<Rightarrow> string \<Rightarrow> string \<Rightarrow> int \<Rightarrow> ('f \<Rightarrow> int) option
     \<Rightarrow> int \<times> CPUQuotaStatus \<times> error option" where
  "GetCPUQuotaToCPUCntByPidForCgroups2 F env actualCGRoot pid minValue round0 =
     (case GOOS env of
        Linux \<Rightarrow> GetCPUQuotaToCPUCntByPidForCgroups2_linux F env actualCGRoot pid minValue round0
      | Darwin \<Rightarrow> (- 1, CPUQuotaUndefined, None))"






section \<open>Package mem: total and available memory\<close>

text \<open>
  The functions return \<open>(total, available, err)\<close> in this order; the model returns
  \<open>Inl err\<close> or \<open>Inr (total, available)\<close>.
\<close>

definition getSystemMemory :: "'f os_env \<Rightarrow> string \<Rightarrow> bool \<Rightarrow> error + int \<times> int" where
  "getSystemMemory env burnMemMode includeBufferCache =
     (case VirtualMemory env of
        Inl err \<Rightarrow> Inl err
      | Inr virtualMemory \<Rightarrow>
          (let total = int64_of_uint64 (vm_Total virtualMemory);
               available = int64_of_uint64 (vm_Free virtualMemory)
           in if burnMemMode = ''ram'' \<and> \<not> includeBufferCache
              then Inr (total, add64 available
                          (int64_of_uint64 (addu64 (vm_Buffers virtualMemory) (vm_Cached virtualMemory))))
              else Inr (total, available)))"

definition getCGroupV2MemoryUsage :: "'f os_env \<Rightarrow> string \<Rightarrow> error + int" where
  "getCGroupV2MemoryUsage env cgroupPath =
     (let currentFile = cgroupPath @ ''/memory.current''
      in case files env currentFile of
           None \<Rightarrow> Inl (PathError currentFile)
         | Some content \<Rightarrow> ParseInt (TrimSpace content))"

text \<open>One iteration of the loop of \<open>getCGroupV2MemoryCache\<close> over the lines.\<close>

definition cache_line :: "int \<Rightarrow> string \<Rightarrow> int" where
  "cache_line cache line =
     (if HasPrefix line ''file ''
      then (let parts = Fields line
            in if length parts = 2
               then (case ParseInt (parts ! 1) of
                       Inr val \<Rightarrow> add64 cache val
                     | Inl err \<Rightarrow> cache)
               else cache)
      else cache)"

definition getCGroupV2MemoryCache :: "'f os_env \<Rightarrow> string \<Rightarrow> error + int" where
  "getCGroupV2MemoryCache env cgroupPath =
     (let statFile = cgroupPath @ ''/memory.stat''
      in case files env statFile of
           None \<Rightarrow> Inl (PathError statFile)
         | Some content \<Rightarrow> Inr (foldl cache_line 0 (Split newline content)))"

text \<open>
  What a line of \<open>memory.stat\<close> adds to the cache: the number of a line made of the
  key \<open>file\<close> and a number, and nothing for any other line. The sum of these values
  over the lines is the sum of the \<open>file\<close> field that the specification speaks of.
\<close>

definition file_line_value :: "string \<Rightarrow> int" where
  "file_line_value line =
     (if HasPrefix line ''file ''
      then (case Fields line of
              [k, v] \<Rightarrow> (case ParseInt v of Inr n \<Rightarrow> n | Inl err \<Rightarrow> 0)
            | _ \<Rightarrow> 0)
      else 0)"

definition getAvailableAndTotalV2 ::
  "'f os_env \<Rightarrow> go_context \<Rightarrow> string \<Rightarrow> bool \<Rightarrow> (error + int \<times> int) outcome" where
  "getAvailableAndTotalV2 env ctx burnMemMode includeBufferCache =
     (case NSTargetFlagName ctx of
        AnyNil \<Rightarrow> Returns (getSystemMemory env burnMemMode includeBufferCache)
      | AnyStr pid \<Rightarrow>
          (case Atoi pid of
             Inl err \<Rightarrow> Returns (Inl (Wrapped ''load cgroup error'' err))
           | Inr p \<Rightarrow>
               (case (if cgroup_root ctx = AnyStr [] then AnyStr ''/sys/fs/cgroup''
                      else cgroup_root ctx) of
                  AnyStr cgroupRoot \<Rightarrow>
                    (case FindCGroupV2Path env (Itoa p) cgroupRoot of
                       (cgroupPath, Some err) \<Rightarrow>
                         Returns (getSystemMemory env burnMemMode includeBufferCache)
                     | (cgroupPath, None) \<Rightarrow>
                         if cgroupPath = []
                         then Returns (getSystemMemory env burnMemMode includeBufferCache)
                         else (case MemoryLimit env cgroupPath of
                                 (limit, defined, Some err) \<Rightarrow>
                                   Returns (getSystemMemory env burnMemMode includeBufferCache)
                               | (limit, defined, None) \<Rightarrow>
                                   if \<not> defined
                                   then Returns (getSystemMemory env burnMemMode includeBufferCache)
                                   else if limit = 0
                                   then Returns (getSystemMemory env burnMemMode includeBufferCache)
                                   else (case getCGroupV2MemoryUsage env cgroupPath of
                                           Inl err \<Rightarrow>
                                             Returns (getSystemMemory env burnMemMode includeBufferCache)
                                         | Inr usage \<Rightarrow>
                                             (let total = limit;
                                                  available = sub64 total usage
                                              in if burnMemMode = ''ram'' \<and> \<not> includeBufferCache
                                                 then (case getCGroupV2MemoryCache env cgroupPath of
                                                         Inr cache \<Rightarrow>
                                                           Returns (Inr (total, add64 available cache))
                                                       | Inl err \<Rightarrow> Returns (Inr (total, available)))
                                                 else Returns (Inr (total, available))))))
                | AnyNil \<Rightarrow> Panics
                | AnyInt n \<Rightarrow> Panics
                | AnyOther \<Rightarrow> Panics))
      | AnyInt n \<Rightarrow> Panics
      | AnyOther \<Rightarrow> Panics)"

text \<open>
  \<open>PageCounterMax\<close>, the sentinel of package \<open>mem\<close> for an unlimited cgroup v1
  limit, is declared outside the sources at hand; it is a parameter.
\<close>

definition getAvailableAndTotalV1 ::
  "nat \<Rightarrow> 'f os_env \<Rightarrow> string \<Rightarrow> bool \<Rightarrow> int \<Rightarrow> string \<Rightarrow> error + int \<times> int" where
  "getAvailableAndTotalV1 PageCounterMax env burnMemMode includeBufferCache p cgroupRoot =
     (case cgroups_Load env cgroupRoot p of
        Some err \<Rightarrow> Inl (Wrapped ''load cgroup error'' err)
      | None \<Rightarrow>
          (case cgroup_Stat env cgroupRoot p of
             Inl err \<Rightarrow> Inl (Wrapped ''load cgroup stat error'' err)
           | Inr stats \<Rightarrow>
               (case (case stats of
                        None \<Rightarrow> None
                      | Some m \<Rightarrow> if Memory_Usage_Limit m < PageCounterMax then Some m else None) of
                  Some m \<Rightarrow>
                    (let total = int64_of_uint64 (Memory_Usage_Limit m);
                         available = sub64 total (int64_of_uint64 (Memory_Usage_Usage m))
                     in if burnMemMode = ''ram'' \<and> \<not> includeBufferCache
                        then Inr (total, add64 available (int64_of_uint64 (Memory_Cache m)))
                        else Inr (total, available))
                | None \<Rightarrow>
                    (case VirtualMemory env of
                       Inl err \<Rightarrow> Inl err
                     | Inr virtualMemory \<Rightarrow>
                         (let total = int64_of_uint64 (vm_Total virtualMemory);
                              available = int64_of_uint64 (vm_Free virtualMemory)
                          in if burnMemMode = ''ram'' \<and> \<not> includeBufferCache
                             then Inr (total, add64 available
                                         (int64_of_uint64
                                            (addu64 (vm_Buffers virtualMemory) (vm_Cached virtualMemory))))
                             else Inr (total, available))))))"

text \<open>
  \<open>getAvailableAndTotal\<close> calls \<open>getAvailableAndTotalV2\<close>, which the sources define
  for Linux only (\<open>//go:build linux\<close>): the function is part of the Linux build, and
  the detection it calls is the one of that build.
\<close>

definition getAvailableAndTotal ::
  "nat \<Rightarrow> 'f os_env \<Rightarrow> go_context \<Rightarrow> string \<Rightarrow> bool \<Rightarrow> (error + int \<times> int) outcome" where
  "getAvailableAndTotal PageCounterMax env ctx burnMemMode includeBufferCache =
     (case NSTargetFlagName ctx of
        AnyNil \<Rightarrow>
          (case VirtualMemory env of
             Inl err \<Rightarrow> Returns (Inl err)
           | Inr virtualMemory \<Rightarrow>
               (let total = int64_of_uint64 (vm_Total virtualMemory);
                    available = int64_of_uint64 (vm_Free virtualMemory)
                in if burnMemMode = ''ram'' \<and> \<not> includeBufferCache
                   then Returns (Inr (total, add64 available
                                   (int64_of_uint64
                                      (addu64 (vm_Buffers virtualMemory) (vm_Cached virtualMemory)))))
                   else Returns (Inr (total, available))))
      | AnyStr pid \<Rightarrow>
          (case Atoi pid of
             Inl err \<Rightarrow> Returns (Inl (Wrapped ''load cgroup error'' err))
           | Inr p \<Rightarrow>
               (case (if cgroup_root ctx = AnyStr [] then AnyStr ''/sys/fs/cgroup/''
                      else cgroup_root ctx) of
                  AnyStr cgroupRoot \<Rightarrow>
                    (case DetectCGroupVersion_linux env cgroupRoot of
                       CGroupV2 \<Rightarrow> getAvailableAndTotalV2 env ctx burnMemMode includeBufferCache
                     | CGroupV1 \<Rightarrow>
                         Returns (getAvailableAndTotalV1 PageCounterMax env burnMemMode
                                    includeBufferCache p cgroupRoot)
                     | CGroupUnknown \<Rightarrow>
                         Returns (getAvailableAndTotalV1 PageCounterMax env burnMemMode
                                    includeBufferCache p cgroupRoot))
                | AnyNil \<Rightarrow> Panics
                | AnyInt n \<Rightarrow> Panics
                | AnyOther \<Rightarrow> Panics))
      | AnyInt n \<Rightarrow> Panics
      | AnyOther \<Rightarrow> Panics)"

section \<open>Package cpu: the usage sampler\<close>

text \<open>One iteration of the parsing loop of \<open>getCGroupV2CPUUsage\<close>; the state is
  \<open>(usageUsec, userUsec, systemUsec)\<close>.\<close>

definition cpu_stat_line :: "int \<times> int \<times> int \<Rightarrow> string \<Rightarrow> int \<times> int \<times> int" where
  "cpu_stat_line st line0 =
     (case st of (usageUsec, userUsec, systemUsec) \<Rightarrow>
        (let line = TrimSpace line0
         in if line = [] then st
            else (let parts = Fields line
                  in if length parts \<noteq> 2 then st
                     else (case ParseInt (parts ! 1) of
                             Inl err \<Rightarrow> st
                           | Inr v \<Rightarrow>
                               if parts ! 0 = ''usage_usec'' then (v, userUsec, systemUsec)
                               else if parts ! 0 = ''user_usec'' then (usageUsec, v, systemUsec)
                               else if parts ! 0 = ''system_usec'' then (usageUsec, userUsec, v)
                               else st))))"

text \<open>A whole parsing pass, followed by the choice of the cumulative CPU time.\<close>

definition cpu_stat_total :: "string \<Rightarrow> int" where
  "cpu_stat_total content =
     (case foldl cpu_stat_line (0, 0, 0) (Split newline content) of
        (usageUsec, userUsec, systemUsec) \<Rightarrow>
          if usageUsec = 0 then add64 userUsec systemUsec else usageUsec)"

definition getCGroupV2CPUUsage ::
  "'f float64_lib \<Rightarrow> 'f os_env \<Rightarrow> string \<Rightarrow> int \<Rightarrow> error + 'f" where
  "getCGroupV2CPUUsage F env cgroupPath cpuCnt =
     (let cpuStatFile = Join [cgroupPath, ''cpu.stat'']
      in case files env cpuStatFile of
           None \<Rightarrow> Inl (Wrapped ''failed to read cpu.stat file'' (PathError cpuStatFile))
         | Some content \<Rightarrow>
             (let firstTotal = cpu_stat_total content
              in case files_later env cpuStatFile of
                   None \<Rightarrow> Inl (Wrapped ''failed to read cpu.stat file again'' (PathError cpuStatFile))
                 | Some content2 \<Rightarrow>
                     (let secondTotal = cpu_stat_total content2;
                          timeDiff = f_div F (f_of_int F (sub64 secondTotal firstTotal))
                                       (f_of_int F 1000000);
                          cpuUsage = f_div F (f_mul F timeDiff (f_of_int F 100)) (f_of_int F cpuCnt)
                      in Inr cpuUsage)))"

text \<open>Indexing a slice with a Go \<open>int\<close>: out of range, negative included, panics.\<close>

definition index :: "'a list \<Rightarrow> int \<Rightarrow> 'a outcome" where
  "index xs i = (if 0 \<le> i \<and> i < int (length xs) then Returns (xs ! nat i) else Panics)"

text \<open>The cgroup v1 branch of \<open>getUsed\<close>.\<close>

definition getUsed_v1 :: "'f float64_lib \<Rightarrow> 'f os_env \<Rightarrow> string \<Rightarrow> int \<Rightarrow> int \<Rightarrow> 'f outcome" where
  "getUsed_v1 F env cgroupRoot p cpuCnt =
     (case cgroups_Load env cgroupRoot p of
        Some err \<Rightarrow> Exits
      | None \<Rightarrow>
          (case cgroup_Stat env cgroupRoot p of
             Inl err \<Rightarrow> Exits
           | Inr None \<Rightarrow> Panics
           | Inr (Some stats) \<Rightarrow>
               (let pre = f_div F (f_of_int F (int (CPU_Usage_Total stats))) (f_of_int F 1000000000)
                in case cgroup_Stat_later env cgroupRoot p of
                     Inl err \<Rightarrow> Exits
                   | Inr None \<Rightarrow> Panics
                   | Inr (Some nextStats) \<Rightarrow>
                       (let next = f_div F (f_of_int F (int (CPU_Usage_Total nextStats)))
                                     (f_of_int F 1000000000)
                        in Returns (f_div F (f_mul F (f_sub F next pre) (f_of_int F 100))
                                      (f_of_int F cpuCnt))))))"

text \<open>The host branch of \<open>getUsed\<close>, taken when no pid is given.\<close>

definition getUsed_host :: "'f os_env \<Rightarrow> bool \<Rightarrow> int \<Rightarrow> 'f outcome" where
  "getUsed_host env percpu cpuIndex =
     (case cpu_Percent env percpu of
        Inl err \<Rightarrow> Exits
      | Inr totalCpuPercent \<Rightarrow>
          if percpu
          then (if cpuIndex > int (length totalCpuPercent) then Exits
                else index totalCpuPercent cpuIndex)
          else index totalCpuPercent 0)"

definition getUsed ::
  "'f float64_lib \<Rightarrow> 'f os_env \<Rightarrow> go_context \<Rightarrow> bool \<Rightarrow> int \<Rightarrow> 'f outcome" where
  "getUsed F env ctx percpu cpuIndex =
     (case cpuCount ctx of
        AnyInt cpuCnt \<Rightarrow>
          (case NSTargetFlagName ctx of
             AnyNil \<Rightarrow> getUsed_host env percpu cpuIndex
           | AnyStr pid \<Rightarrow>
               (case Atoi pid of
                  Inl err \<Rightarrow> Exits
                | Inr p \<Rightarrow>
                    (case (if cgroup_root ctx = AnyStr [] then AnyStr ''/sys/fs/cgroup''
                           else cgroup_root ctx) of
                       AnyStr cgroupRoot \<Rightarrow>
                         (case FindCGroupV2Path env (Itoa p) cgroupRoot of
                            (cgroupPath, Some err) \<Rightarrow> getUsed_v1 F env cgroupRoot p cpuCnt
                          | (cgroupPath, None) \<Rightarrow>
                              if cgroupPath \<noteq> []
                              then (case getCGroupV2CPUUsage F env cgroupPath cpuCnt of
                                      Inr cpuUsage \<Rightarrow> Returns cpuUsage
                                    | Inl err \<Rightarrow> getUsed_v1 F env cgroupRoot p cpuCnt)
                              else getUsed_v1 F env cgroupRoot p cpuCnt)
                     | AnyNil \<Rightarrow> Panics
                     | AnyInt n \<Rightarrow> Panics
                     | AnyOther \<Rightarrow> Panics))
           | AnyInt n \<Rightarrow> Panics
           | AnyOther \<Rightarrow> Panics)
      | AnyNil \<Rightarrow> Panics
      | AnyStr s \<Rightarrow> Panics
      | AnyOther \<Rightarrow> Panics)"

section \<open>Example machines\<close>

text \<open>
  An instance of the arithmetic on the reals, exact where binary64 rounds; the default
  rounding function is taken to round to the nearest whole number.
\<close>

definition real_lib :: "real float64_lib" where
  "real_lib = \<lparr>f_of_int = real_of_int, f_div = (/), f_mul = (*), f_sub = (-),
               DefaultRoundFunc = (\<lambda>v. \<lfloor>v + 1 / 2\<rfloor>)\<rparr>"

text \<open>A Linux machine on which nothing can be read and every library call fails.\<close>

definition base_env :: "real os_env" where
  "base_env =
     \<lparr>GOOS = Linux, files = (\<lambda>p. None), files_later = (\<lambda>p. None), stat_ok = (\<lambda>p. False),
      mountinfo = None, NumCPU = 8, VirtualMemory = Inl (LibError ''unavailable''),
      cgroups_Load = (\<lambda>r p. Some (LibError ''no cgroup v1'')),
      cgroup_Stat = (\<lambda>r p. Inl (LibError ''no cgroup v1'')),
      cgroup_Stat_later = (\<lambda>r p. Inl (LibError ''no cgroup v1'')),
      cpu_Percent = (\<lambda>b. Inl (LibError ''unavailable'')),
      GetCPUQuotaToCPUCntByPidFroCgroups1_linux =
        (\<lambda>r p m. (- 1, CPUQuotaUndefined, Some (LibError ''no cgroup v1'')))\<rparr>"

text \<open>
  A file system in which process 1234 lives in the cgroup v2 directory
  \<open>/sys/fs/cgroup/demo\<close>, holding the given files (name and content).
\<close>

definition demo_fs :: "(string \<times> string) list \<Rightarrow> string \<Rightarrow> string option" where
  "demo_fs kvs =
     map_of ((''/proc/1234/cgroup'', ''0::/demo'' @ [newline])
             # map (\<lambda>(name, content). (''/sys/fs/cgroup/demo/'' @ name, content)) kvs)"

definition demo_env :: "(string \<times> string) list \<Rightarrow> real os_env" where
  "demo_env kvs = base_env\<lparr>files := demo_fs kvs\<rparr>"

definition demo_ctx :: go_context where
  "demo_ctx = \<lparr>NSTargetFlagName = AnyStr ''1234'', cgroup_root = AnyStr [], cpuCount = AnyInt 2\<rparr>"

text \<open>The memory files of the specification's scenario, in that directory.\<close>

definition scenario_mem_files :: "(string \<times> string) list" where
  "scenario_mem_files =
     [(''memory.max'', ''2147483648'' @ [newline]),
      (''memory.current'', ''1073741824'' @ [newline]),
      (''memory.stat'', ''anon 966367641'' @ [newline] @ ''file 104857600'' @ [newline]
                         @ ''file_mapped 52428800'' @ [newline])]"

text \<open>Memory files in which the file cache, read last, has outgrown the usage read before it.\<close>

definition race_mem_files :: "(string \<times> string) list" where
  "race_mem_files =
     [(''memory.max'', ''1073741824'' @ [newline]),
      (''memory.current'', ''104857600'' @ [newline]),
      (''memory.stat'', ''file 209715200'' @ [newline])]"

text \<open>A machine with consistent cgroup v2 files, cgroup v1 statistics and host figures.\<close>

definition demo_metrics :: v1_metrics where
  "demo_metrics = \<lparr>Memory_Usage_Limit = 2147483648, Memory_Usage_Usage = 1073741824,
                    Memory_Cache = 104857600, CPU_Usage_Total = 0\<rparr>"

definition demo_vm :: vm_stat where
  "demo_vm = \<lparr>vm_Total = 8589934592, vm_Free = 2147483648, vm_Buffers = 104857600,
               vm_Cached = 1073741824\<rparr>"

definition full_env :: "real os_env" where
  "full_env = (demo_env scenario_mem_files)
                \<lparr>VirtualMemory := Inr demo_vm,
                 cgroups_Load := (\<lambda>r p. None),
                 cgroup_Stat := (\<lambda>r p. Inr (Some demo_metrics))\<rparr>"


text \<open>
  The filesystem type of a line of \<open>/proc/self/mountinfo\<close>, as proc(5) lays the line
  out: mount id, parent id, device, root, mount point, mount options, then zero or more
  optional fields, a separator \<open>-\<close>, the filesystem type, the source and the super
  options. It is the field after the separator; it is not part of the code and serves
  to describe a mount table.
\<close>

definition proc_mountinfo_fstype :: "string \<Rightarrow> string option" where
  "proc_mountinfo_fstype line =
     (case dropWhile (\<lambda>f. f \<noteq> ''-'') (drop 6 (Fields line)) of
        sep # fstype # rest \<Rightarrow> Some fstype
      | _ \<Rightarrow> None)"

text \<open>A machine in systemd's hybrid layout: \<open>/sys/fs/cgroup\<close> is a tmpfs without a
  \<open>cgroup.controllers\<close> file, and a cgroup2 filesystem is mounted below it.\<close>

definition unified_line :: string where
  "unified_line = ''26 25 0:24 / /sys/fs/cgroup/unified rw,nosuid,nodev,noexec,relatime shared:10 - cgroup2 cgroup2 rw,nsdelegate''"

definition hybrid_env :: "real os_env" where
  "hybrid_env = base_env
     \<lparr>mountinfo := Some [''25 30 0:23 / /sys/fs/cgroup ro,nosuid,nodev,noexec shared:9 - tmpfs tmpfs ro,mode=755'',
                          unified_line]\<rparr>"

text \<open>A machine whose \<open>cpu.stat\<close> shows half a second of CPU time used during the
  sampler's sleep.\<close>

definition sample_env :: "real os_env" where
  "sample_env = base_env
     \<lparr>files := demo_fs [(''cpu.stat'', ''usage_usec 1000000'' @ [newline] @ ''user_usec 600000''
                                        @ [newline] @ ''system_usec 400000'' @ [newline])],
      files_later := demo_fs [(''cpu.stat'', ''usage_usec 1500000'' @ [newline] @ ''user_usec 900000''
                                        @ [newline] @ ''system_usec 600000'' @ [newline])]\<rparr>"

text \<open>A context that names process 1234 and holds no value for the key \<open>cgroup-root\<close>.\<close>

definition no_root_ctx :: go_context where
  "no_root_ctx = \<lparr>NSTargetFlagName = AnyStr ''1234'', cgroup_root = AnyNil, cpuCount = AnyInt 2\<rparr>"

text \<open>A context without a pid, and a machine with two cores' usage figures.\<close>

definition host_ctx :: go_context where
  "host_ctx = \<lparr>NSTargetFlagName = AnyNil, cgroup_root = AnyStr [], cpuCount = AnyInt 2\<rparr>"

definition percpu_env :: "real os_env" where
  "percpu_env = base_env\<lparr>cpu_Percent := (\<lambda>percpu. Inr (if percpu then [12, 34] else [23]))\<rparr>"

section \<open>Facts about the model shared by the proofs\<close>

lemma find_demo_path:
  "FindCGroupV2Path (demo_env kvs) ''1234'' ''/sys/fs/cgroup'' = (''/sys/fs/cgroup/demo'', None)"
  by (simp add: FindCGroupV2Path_def FindCGroupV2Path_linux_def demo_env_def base_env_def
      demo_fs_def Join_def Clean_def newline_def)

lemma demo_cpu_max:
  "files (demo_env [(''cpu.max'', c)]) (Join [''/sys/fs/cgroup/demo'', ''cpu.max'']) = Some c"
  by (simp add: Join_def Clean_def demo_env_def demo_fs_def)

lemma ParseInt_max: "ParseInt ''max'' = Inl (NumError ''max'')"
  by (simp add: ParseInt_def)

text \<open>
  Once the cgroup v2 directory of the process is found, the quota resolution depends on
  \<open>cpu.max\<close> alone. (The lookup finds nothing on Darwin, so the machine runs Linux.)
\<close>

lemma quota_cases:
  assumes "FindCGroupV2Path env pid root0 = (cgroupPath, None)"
      and "cgroupPath \<noteq> []"
  shows "GetCPUQuotaToCPUCntByPidForCgroups2 F env root0 pid minValue round0 =
           (case CPUQuota_linux F env cgroupPath of
              (quota, defined, Some err) \<Rightarrow> (- 1, CPUQuotaUndefined, Some err)
            | (quota, defined, None) \<Rightarrow>
                if \<not> defined then (- 1, CPUQuotaUndefined, None)
                else (let maxProcs = (case round0 of None \<Rightarrow> DefaultRoundFunc F | Some r \<Rightarrow> r) quota
                      in if minValue > 0 \<and> maxProcs < minValue
                         then (minValue, CPUQuotaMinUsed, None)
                         else (maxProcs, CPUQuotaUsed, None)))"
proof (cases "GOOS env")
  case Linux
  with assms show ?thesis
    by (simp add: GetCPUQuotaToCPUCntByPidForCgroups2_def
        GetCPUQuotaToCPUCntByPidForCgroups2_linux_def CPUQuota_def Let_def)
next
  case Darwin
  with assms show ?thesis by (simp add: FindCGroupV2Path_def)
qed

text \<open>Within the \<open>int64\<close> range nothing wraps, and parsed numbers are in that range.\<close>

lemma wrap64_id: "- (2 ^ 63) \<le> x \<Longrightarrow> x < 2 ^ 63 \<Longrightarrow> wrap64 x = x"
  by (simp add: wrap64_def)

lemma ParseInt_range:
  assumes "ParseInt s = Inr v"
  shows "- (2 ^ 63) \<le> v \<and> v < 2 ^ 63"
  using assms
  by (auto simp add: ParseInt_def Let_def split: list.splits if_splits option.splits)

lemma MemoryLimit_range:
  assumes "MemoryLimit env path = (limit, True, None)"
  shows "- (2 ^ 63) \<le> limit \<and> limit < 2 ^ 63"
  using assms ParseInt_range
  by (auto simp add: MemoryLimit_def MemoryLimit_linux_def Let_def
      split: goos.splits option.splits if_splits sum.splits)

lemma MemoryUsage_range:
  assumes "getCGroupV2MemoryUsage env path = Inr usage"
  shows "- (2 ^ 63) \<le> usage \<and> usage < 2 ^ 63"
  using assms ParseInt_range
  by (auto simp add: getCGroupV2MemoryUsage_def Let_def split: option.splits)

text \<open>
  Wrapping is a reduction modulo \<open>2 ^ 64\<close>, so the cache that the loop of
  \<open>getCGroupV2MemoryCache\<close> accumulates is the sum of the values of the lines, wrapped once.
\<close>

lemma wrap64_wrap64_add: "wrap64 (wrap64 x + y) = wrap64 (x + y)"
proof -
  have "wrap64 (wrap64 x + y) = ((x + 2 ^ 63) mod 2 ^ 64 + y) mod 2 ^ 64 - 2 ^ 63"
    unfolding wrap64_def by (simp add: algebra_simps)
  also have "((x + 2 ^ 63) mod 2 ^ 64 + y) mod 2 ^ 64 = (x + 2 ^ 63 + y) mod (2 ^ 64 :: int)"
    by (rule mod_add_left_eq)
  also have "(x + 2 ^ 63 + y) mod 2 ^ 64 - 2 ^ 63 = wrap64 (x + y)"
    unfolding wrap64_def by (simp add: algebra_simps)
  finally show ?thesis .
qed

lemma wrap64_add_wrap64: "wrap64 (x + wrap64 y) = wrap64 (x + y)"
  using wrap64_wrap64_add [of y x] by (simp add: add.commute)

lemma cache_line_value: "cache_line cache line = add64 cache (file_line_value line) \<or>
    (file_line_value line = 0 \<and> cache_line cache line = cache)"
  by (auto simp add: cache_line_def file_line_value_def Let_def split: list.splits sum.splits)

lemma foldl_cache_line:
  "wrap64 (foldl cache_line cache ls) = wrap64 (cache + sum_list (map file_line_value ls))"
proof (induction ls arbitrary: cache)
  case Nil
  then show ?case by simp
next
  case (Cons line ls)
  have "wrap64 (cache_line cache line + sum_list (map file_line_value ls))
          = wrap64 (cache + file_line_value line + sum_list (map file_line_value ls))"
    using cache_line_value [of cache line]
    by (auto simp add: add64_def wrap64_wrap64_add)
  with Cons.IH [of "cache_line cache line"] show ?case
    by (simp add: add.assoc)
qed

lemma wrap64_range: "- (2 ^ 63) \<le> wrap64 x \<and> wrap64 x < 2 ^ 63"
  by (simp add: wrap64_def)

lemma cache_line_range:
  "- (2 ^ 63) \<le> cache \<and> cache < 2 ^ 63
     \<Longrightarrow> - (2 ^ 63) \<le> cache_line cache line \<and> cache_line cache line < 2 ^ 63"
  using wrap64_range
  by (auto simp add: cache_line_def add64_def Let_def split: sum.splits)

lemma foldl_cache_line_range:
  "- (2 ^ 63) \<le> cache \<and> cache < 2 ^ 63
     \<Longrightarrow> - (2 ^ 63) \<le> foldl cache_line cache ls \<and> foldl cache_line cache ls < 2 ^ 63"
proof (induction ls arbitrary: cache)
  case Nil
  then show ?case by simp
next
  case (Cons line ls)
  from cache_line_range [OF Cons.prems] Cons.IH show ?case by simp
qed

lemma memory_cache_is_file_sum:
  assumes "files env (cgroupPath @ ''/memory.stat'') = Some content"
  shows "getCGroupV2MemoryCache env cgroupPath
           = Inr (wrap64 (sum_list (map file_line_value (Split newline content))))"
proof -
  have "foldl cache_line 0 (Split newline content)
          = wrap64 (foldl cache_line 0 (Split newline content))"
    using foldl_cache_line_range [of 0 "Split newline content"] by (simp add: wrap64_id)
  also have "\<dots> = wrap64 (sum_list (map file_line_value (Split newline content)))"
    using foldl_cache_line [of 0 "Split newline content"] by simp
  finally show ?thesis using assms by (simp add: getCGroupV2MemoryCache_def)
qed

text \<open>
  The cgroup branch of \<open>getAvailableAndTotalV2\<close>: with a pid, a cgroup v2 directory, a
  defined limit other than zero and a readable \<open>memory.current\<close>, the result is the limit
  and the limit minus the usage, plus the cache when the burn mode is \<open>ram\<close>, the
  include-buffer-cache flag is off and \<open>memory.stat\<close> can be read.
\<close>

lemma v2_memory_cases:
  assumes "NSTargetFlagName ctx = AnyStr pid" and "Atoi pid = Inr p"
      and "cgroup_root ctx = AnyStr r"
      and "FindCGroupV2Path env (Itoa p) (if r = [] then ''/sys/fs/cgroup'' else r) = (cgroupPath, None)"
      and "cgroupPath \<noteq> []"
      and "MemoryLimit env cgroupPath = (limit, True, None)" and "limit \<noteq> 0"
      and "getCGroupV2MemoryUsage env cgroupPath = Inr usage"
  shows "getAvailableAndTotalV2 env ctx burnMemMode includeBufferCache =
           Returns (Inr (limit,
             if burnMemMode = ''ram'' \<and> \<not> includeBufferCache
             then (case getCGroupV2MemoryCache env cgroupPath of
                     Inr cache \<Rightarrow> add64 (sub64 limit usage) cache
                   | Inl err \<Rightarrow> sub64 limit usage)
             else sub64 limit usage))"
  using assms
  by (cases "r = []") (simp_all add: getAvailableAndTotalV2_def Let_def split: sum.splits)

lemma Atoi_1234: "Atoi ''1234'' = Inr 1234"
  by (simp add: Atoi_def ParseInt_def)

lemma Itoa_1234: "Itoa 1234 = ''1234''"
  by (simp add: Itoa_def nat_digits.simps digit_char_def)

lemma scenario_limit:
  "MemoryLimit (demo_env scenario_mem_files) ''/sys/fs/cgroup/demo'' = (2147483648, True, None)"
  by (simp add: MemoryLimit_def MemoryLimit_linux_def demo_env_def base_env_def demo_fs_def
      scenario_mem_files_def Join_def Clean_def TrimSpace_def isSpace_def newline_def ParseInt_def)

lemma scenario_usage:
  "getCGroupV2MemoryUsage (demo_env scenario_mem_files) ''/sys/fs/cgroup/demo'' = Inr 1073741824"
  by (simp add: getCGroupV2MemoryUsage_def demo_env_def base_env_def demo_fs_def
      scenario_mem_files_def TrimSpace_def isSpace_def newline_def ParseInt_def)

lemma scenario_cache:
  "getCGroupV2MemoryCache (demo_env scenario_mem_files) ''/sys/fs/cgroup/demo'' = Inr 104857600"
  by (simp add: getCGroupV2MemoryCache_def demo_env_def base_env_def demo_fs_def
      scenario_mem_files_def cache_line_def HasPrefix_def isSpace_def newline_def ParseInt_def
      add64_def wrap64_def)

lemma find_full_path:
  "FindCGroupV2Path full_env ''1234'' ''/sys/fs/cgroup'' = (''/sys/fs/cgroup/demo'', None)"
  by (simp add: FindCGroupV2Path_def FindCGroupV2Path_linux_def full_env_def demo_env_def
      base_env_def demo_fs_def Join_def Clean_def newline_def)

lemma full_limit:
  "MemoryLimit full_env ''/sys/fs/cgroup/demo'' = (2147483648, True, None)"
  using scenario_limit
  by (simp add: MemoryLimit_def MemoryLimit_linux_def full_env_def demo_env_def base_env_def)

lemma full_usage:
  "getCGroupV2MemoryUsage full_env ''/sys/fs/cgroup/demo'' = Inr 1073741824"
  using scenario_usage by (simp add: getCGroupV2MemoryUsage_def full_env_def)

lemma full_cache:
  "getCGroupV2MemoryCache full_env ''/sys/fs/cgroup/demo'' = Inr 104857600"
  using scenario_cache by (simp add: getCGroupV2MemoryCache_def full_env_def)

text \<open>The three tiers of the memory resolution, each on figures that are consistent.\<close>

lemma v2_available_le_total:
  assumes "NSTargetFlagName ctx = AnyStr pid" and "Atoi pid = Inr p"
      and "cgroup_root ctx = AnyStr r"
      and "FindCGroupV2Path env (Itoa p) (if r = [] then ''/sys/fs/cgroup'' else r) = (cgroupPath, None)"
      and "cgroupPath \<noteq> []"
      and "MemoryLimit env cgroupPath = (limit, True, None)" and "0 < limit"
      and "getCGroupV2MemoryUsage env cgroupPath = Inr usage" and "0 \<le> usage"
      and "case getCGroupV2MemoryCache env cgroupPath of
             Inr cache \<Rightarrow> 0 \<le> cache \<and> cache \<le> usage | Inl err \<Rightarrow> True"
  shows "\<exists>available. getAvailableAndTotalV2 env ctx burnMemMode includeBufferCache
                         = Returns (Inr (limit, available)) \<and> available \<le> limit"
proof -
  have l: "limit < 2 ^ 63" using MemoryLimit_range [OF assms(6)] by simp
  have u: "usage < 2 ^ 63" using MemoryUsage_range [OF assms(8)] by simp
  have s: "sub64 limit usage = limit - usage"
    using l u assms(7,9) by (simp add: sub64_def wrap64_id)
  have ne: "limit \<noteq> 0" using assms(7) by simp
  have c: "add64 (limit - usage) cache = limit - usage + cache"
    if "0 \<le> cache" "cache \<le> usage" for cache
    using that l u assms(7,9) by (simp add: add64_def wrap64_id)
  show ?thesis
    using assms(7,9,10) c
    by (auto simp add: v2_memory_cases [OF assms(1-5) assms(6) ne assms(8)] s split: sum.splits)
qed

lemma v1_available_le_total:
  assumes "cgroups_Load env cgroupRoot p = None"
      and "cgroup_Stat env cgroupRoot p = Inr (Some m)"
      and "Memory_Usage_Limit m < PageCounterMax"
      and "Memory_Usage_Limit m < 2 ^ 63" and "Memory_Usage_Usage m < 2 ^ 63"
      and "Memory_Cache m \<le> Memory_Usage_Usage m"
  shows "\<exists>total available.
           getAvailableAndTotalV1 PageCounterMax env burnMemMode includeBufferCache p cgroupRoot
             = Inr (total, available) \<and> available \<le> total"
proof -
  have a: "int64_of_uint64 (Memory_Usage_Limit m) = int (Memory_Usage_Limit m)"
          "int64_of_uint64 (Memory_Usage_Usage m) = int (Memory_Usage_Usage m)"
          "int64_of_uint64 (Memory_Cache m) = int (Memory_Cache m)"
    using assms(4-6) by (simp_all add: int64_of_uint64_def wrap64_id)
  have s: "sub64 (int (Memory_Usage_Limit m)) (int (Memory_Usage_Usage m))
             = int (Memory_Usage_Limit m) - int (Memory_Usage_Usage m)"
    using assms(4,5) by (simp add: sub64_def wrap64_id)
  have c: "add64 (int (Memory_Usage_Limit m) - int (Memory_Usage_Usage m)) (int (Memory_Cache m))
             = int (Memory_Usage_Limit m) - int (Memory_Usage_Usage m) + int (Memory_Cache m)"
    using assms(4-6) by (simp add: add64_def wrap64_id)
  show ?thesis
    using assms(1-3,6) by (simp add: getAvailableAndTotalV1_def Let_def a s c)
qed

lemma host_available_le_total:
  assumes "VirtualMemory env = Inr vm"
      and "vm_Total vm < 2 ^ 63"
      and "vm_Free vm + vm_Buffers vm + vm_Cached vm \<le> vm_Total vm"
  shows "\<exists>total available.
           getSystemMemory env burnMemMode includeBufferCache = Inr (total, available)
           \<and> available \<le> total"
proof -
  have bc: "addu64 (vm_Buffers vm) (vm_Cached vm) = vm_Buffers vm + vm_Cached vm"
    using assms(2,3) by (simp add: addu64_def)
  have a: "int64_of_uint64 (vm_Total vm) = int (vm_Total vm)"
          "int64_of_uint64 (vm_Free vm) = int (vm_Free vm)"
          "int64_of_uint64 (vm_Buffers vm + vm_Cached vm) = int (vm_Buffers vm + vm_Cached vm)"
    using assms(2,3) by (simp_all add: int64_of_uint64_def wrap64_id)
  have c: "add64 (int (vm_Free vm)) (int (vm_Buffers vm) + int (vm_Cached vm))
             = int (vm_Free vm) + (int (vm_Buffers vm) + int (vm_Cached vm))"
    using assms(2,3) by (simp add: add64_def wrap64_id)
  show ?thesis
    using assms(1,3) by (simp add: getSystemMemory_def Let_def bc a c)
qed



lemma scan_v2_iff:
  "scan_v2 cgroupRoot ls =
     list_ex (\<lambda>line. 7 \<le> length (Fields line) \<and> Fields line ! 6 = CGroupV2FS
                       \<and> HasPrefix (Fields line ! 4) cgroupRoot) ls"
  by (induction ls) (auto simp add: Let_def)

lemma scan_v1_iff:
  "scan_v1 ls = list_ex (\<lambda>line. 7 \<le> length (Fields line) \<and> Fields line ! 6 = CGroupV1FS) ls"
  by (induction ls) (auto simp add: Let_def)




text \<open>
  A context that holds no value at all for \<open>cgroup-root\<close> makes the type assertion on
  the root panic. The sources hold no caller of these functions and no place that
  stores the key, so they do not show such a context to occur.
\<close>

lemma absent_cgroup_root_panics:
  "getUsed F env no_root_ctx percpu cpuIndex = Panics
   \<and> getAvailableAndTotal PageCounterMax env no_root_ctx burnMemMode includeBufferCache = Panics
   \<and> getAvailableAndTotalV2 env no_root_ctx burnMemMode includeBufferCache = Panics"
  by (simp add: getUsed_def getAvailableAndTotal_def getAvailableAndTotalV2_def no_root_ctx_def
      Atoi_1234)



section \<open>The CPU quota of a cgroup v2 process\<close>

text \<open>
  Claim C5. When the first token of \<open>cpu.max\<close> is the unlimited marker \<open>max\<close> (as in
  \<open>max 100000\<close>), the cgroup v2 quota resolution returns \<open>-1\<close> with status
  \<open>CPUQuotaUndefined\<close> and no error, whatever the minimum and the rounding function.
\<close>

theorem max_quota_is_undefined:
  assumes "FindCGroupV2Path env pid root0 = (cgroupPath, None)"
      and "cgroupPath \<noteq> []"
      and "files env (Join [cgroupPath, ''cpu.max'']) = Some content"
      and "Fields (TrimSpace content) = ''max'' # rest"
  shows "GetCPUQuotaToCPUCntByPidForCgroups2 F env root0 pid minValue round0
           = (- 1, CPUQuotaUndefined, None)"
  using assms(3,4) by (simp add: quota_cases [OF assms(1,2)] CPUQuota_linux_def Let_def)

theorem max_quota_is_undefined_witness:
  "GetCPUQuotaToCPUCntByPidForCgroups2 real_lib (demo_env [(''cpu.max'', ''max 100000'' @ [newline])])
     ''/sys/fs/cgroup'' ''1234'' 1 None = (- 1, CPUQuotaUndefined, None)"
proof -
  have tokens: "Fields (TrimSpace (''max 100000'' @ [newline])) = ''max'' # [''100000'']"
    by (simp add: TrimSpace_def isSpace_def newline_def)
  show ?thesis
    by (rule max_quota_is_undefined [OF find_demo_path _ demo_cpu_max tokens]) simp
qed

text \<open>
  Claim C2, as the code has it. When an ASCII \<open>cpu.max\<close>, as the kernel writes it,
  does not hold exactly two tokens, or holds a quota (a number or \<open>max\<close>) and a period
  that is a number not above zero, the cgroup v2 quota resolution returns \<open>-1\<close> with
  status \<open>CPUQuotaUndefined\<close> and a nil error: the malformed content is logged and
  reported as an undefined quota.
\<close>

theorem malformed_cpu_max_is_undefined:
  assumes "FindCGroupV2Path env pid root0 = (cgroupPath, None)"
      and "cgroupPath \<noteq> []"
      and "files env (Join [cgroupPath, ''cpu.max'']) = Some content"
      and "isASCII content"
      and "length (Fields (TrimSpace content)) \<noteq> 2
           \<or> (\<exists>q p period. Fields (TrimSpace content) = [q, p]
                 \<and> (q = ''max'' \<or> (\<exists>quota. ParseInt q = Inr quota))
                 \<and> ParseInt p = Inr period \<and> period \<le> 0)"
  shows "GetCPUQuotaToCPUCntByPidForCgroups2 F env root0 pid minValue round0
           = (- 1, CPUQuotaUndefined, None)"
  using assms(3,5)
  by (auto simp add: quota_cases [OF assms(1,2)] CPUQuota_linux_def Let_def)

theorem malformed_cpu_max_is_undefined_witness:
  "GetCPUQuotaToCPUCntByPidForCgroups2 real_lib (demo_env [(''cpu.max'', ''100000 0'' @ [newline])])
     ''/sys/fs/cgroup'' ''1234'' 1 None = (- 1, CPUQuotaUndefined, None)"
proof -
  have ascii: "isASCII (''100000 0'' @ [newline])"
    by (simp add: isASCII_def newline_def)
  have hyp: "length (Fields (TrimSpace (''100000 0'' @ [newline]))) \<noteq> 2
           \<or> (\<exists>q p period. Fields (TrimSpace (''100000 0'' @ [newline])) = [q, p]
                 \<and> (q = ''max'' \<or> (\<exists>quota. ParseInt q = Inr quota))
                 \<and> ParseInt p = Inr period \<and> period \<le> 0)"
    by (simp add: TrimSpace_def isSpace_def newline_def ParseInt_def)
  show ?thesis
    by (rule malformed_cpu_max_is_undefined [OF find_demo_path _ demo_cpu_max ascii hyp]) simp
qed

text \<open>
  The claim as the specification states it fails: a \<open>cpu.max\<close> with the single token
  \<open>100000\<close>, and one with the period \<open>0\<close>, both end with a nil error.
\<close>

theorem malformed_cpu_max_counterexample:
  "isASCII (''100000'' @ [newline])
   \<and> length (Fields (TrimSpace (''100000'' @ [newline]))) \<noteq> 2
   \<and> snd (snd (GetCPUQuotaToCPUCntByPidForCgroups2 real_lib
                  (demo_env [(''cpu.max'', ''100000'' @ [newline])])
                  ''/sys/fs/cgroup'' ''1234'' 1 None)) = None
   \<and> isASCII (''100000 0'' @ [newline])
   \<and> Fields (TrimSpace (''100000 0'' @ [newline])) = [''100000'', ''0'']
   \<and> ParseInt ''0'' = Inr 0
   \<and> snd (snd (GetCPUQuotaToCPUCntByPidForCgroups2 real_lib
                  (demo_env [(''cpu.max'', ''100000 0'' @ [newline])])
                  ''/sys/fs/cgroup'' ''1234'' 1 None)) = None"
  by (simp add: quota_cases [OF find_demo_path] CPUQuota_linux_def demo_cpu_max
      TrimSpace_def isSpace_def newline_def ParseInt_def isASCII_def)

text \<open>
  Claim C4. For a \<open>cpu.max\<close> holding a quota and a period, both above zero, the
  resolution applies the rounding function (the caller's, or the default one) to the
  \<open>float64\<close> quotient of the two. It returns the minimum with status
  \<open>CPUQuotaMinUsed\<close> when the minimum is above zero and the rounded value below it, and
  the rounded value with status \<open>CPUQuotaUsed\<close> otherwise. A rounded value that is not
  negative, as the rounding of a positive quotient to a whole number of cores is, is
  therefore returned as \<open>CPUQuotaUsed\<close> exactly when it is at least the minimum, for
  every minimum.
\<close>

theorem positive_quota_used_or_min_used:
  assumes "FindCGroupV2Path env pid root0 = (cgroupPath, None)"
      and "cgroupPath \<noteq> []"
      and "files env (Join [cgroupPath, ''cpu.max'']) = Some content"
      and "Fields (TrimSpace content) = [q, p]"
      and "ParseInt q = Inr quota" and "ParseInt p = Inr period"
      and "0 < quota" and "0 < period"
      and "rounded = (case round0 of None \<Rightarrow> DefaultRoundFunc F | Some r \<Rightarrow> r)
                       (f_div F (f_of_int F quota) (f_of_int F period))"
  shows "GetCPUQuotaToCPUCntByPidForCgroups2 F env root0 pid minValue round0
           = (if 0 < minValue \<and> rounded < minValue then (minValue, CPUQuotaMinUsed, None)
              else (rounded, CPUQuotaUsed, None))
         \<and> (0 \<le> rounded \<longrightarrow>
              GetCPUQuotaToCPUCntByPidForCgroups2 F env root0 pid minValue round0
                = (if minValue \<le> rounded then (rounded, CPUQuotaUsed, None)
                   else (minValue, CPUQuotaMinUsed, None)))"
proof -
  have "q \<noteq> ''max''" using assms(5) by (auto simp add: ParseInt_max)
  with assms(3-9) show ?thesis
    by (auto simp add: quota_cases [OF assms(1,2)] CPUQuota_linux_def Let_def)
qed

theorem positive_quota_used_or_min_used_witness:
  "GetCPUQuotaToCPUCntByPidForCgroups2 real_lib
     (demo_env [(''cpu.max'', ''250000 100000'' @ [newline])]) ''/sys/fs/cgroup'' ''1234'' 1 None
     = (3, CPUQuotaUsed, None)
   \<and> GetCPUQuotaToCPUCntByPidForCgroups2 real_lib
     (demo_env [(''cpu.max'', ''250000 100000'' @ [newline])]) ''/sys/fs/cgroup'' ''1234'' 4 None
     = (4, CPUQuotaMinUsed, None)"
proof -
  let ?c = "''250000 100000'' @ [newline]"
  have tokens: "Fields (TrimSpace ?c) = [''250000'', ''100000'']"
    by (simp add: TrimSpace_def isSpace_def newline_def)
  have q: "ParseInt ''250000'' = Inr 250000" and p: "ParseInt ''100000'' = Inr 100000"
    by (simp_all add: ParseInt_def)
  have r: "(3::int) = (case None of None \<Rightarrow> DefaultRoundFunc real_lib | Some r \<Rightarrow> r)
                       (f_div real_lib (f_of_int real_lib 250000) (f_of_int real_lib 100000))"
    by (simp add: real_lib_def)
  have ne: "''/sys/fs/cgroup/demo'' \<noteq> []" by simp
  have pos: "(0::int) < 250000" "(0::int) < 100000" by simp_all
  show ?thesis
    using positive_quota_used_or_min_used [OF find_demo_path ne demo_cpu_max tokens q p pos r, of 1]
          positive_quota_used_or_min_used [OF find_demo_path ne demo_cpu_max tokens q p pos r, of 4]
    by simp
qed

section \<open>Total and available memory\<close>

text \<open>
  Claim C1. The reclaimable cache counts as available when the burn mode is \<open>ram\<close> and
  the include-buffer-cache flag is off: this is the policy the specification names
  \<open>includeReclaimableCache\<close>. Under it, for a process in a cgroup v2 directory with a
  defined limit other than zero, a readable \<open>memory.current\<close> and a readable
  \<open>memory.stat\<close>, the resolution returns the limit as total and, as available, the
  limit minus the usage plus the sum of the \<open>file\<close> lines of \<open>memory.stat\<close>, reduced
  to an \<open>int64\<close>: the exact value whenever that lies in the \<open>int64\<close> range. With the
  limit 2147483648, the usage 1073741824 and the file cache 104857600 the result is total
  2147483648 and available 1178599424.
\<close>

theorem v2_memory_with_cache:
  assumes "NSTargetFlagName ctx = AnyStr pid" and "Atoi pid = Inr p"
      and "cgroup_root ctx = AnyStr r"
      and "FindCGroupV2Path env (Itoa p) (if r = [] then ''/sys/fs/cgroup'' else r) = (cgroupPath, None)"
      and "cgroupPath \<noteq> []"
      and "MemoryLimit env cgroupPath = (limit, True, None)" and "limit \<noteq> 0"
      and "getCGroupV2MemoryUsage env cgroupPath = Inr usage"
      and "files env (cgroupPath @ ''/memory.stat'') = Some stat"
      and "cache = sum_list (map file_line_value (Split newline stat))"
      and "burnMemMode = ''ram''" and "\<not> includeBufferCache"
  shows "getAvailableAndTotalV2 env ctx burnMemMode includeBufferCache
           = Returns (Inr (limit, wrap64 (limit - usage + cache)))
         \<and> (- (2 ^ 63) \<le> limit - usage + cache \<and> limit - usage + cache < 2 ^ 63
              \<longrightarrow> getAvailableAndTotalV2 env ctx burnMemMode includeBufferCache
                    = Returns (Inr (limit, limit - usage + cache)))
         \<and> (limit = 2147483648 \<and> usage = 1073741824 \<and> cache = 104857600
              \<longrightarrow> getAvailableAndTotalV2 env ctx burnMemMode includeBufferCache
                    = Returns (Inr (2147483648, 1178599424)))"
proof -
  have w: "add64 (sub64 limit usage) (wrap64 c) = wrap64 (limit - usage + c)" for c
    by (simp add: add64_def sub64_def wrap64_wrap64_add wrap64_add_wrap64)
  have eq: "getAvailableAndTotalV2 env ctx burnMemMode includeBufferCache
              = Returns (Inr (limit, wrap64 (limit - usage + cache)))"
    using assms(10-12)
    by (simp add: v2_memory_cases [OF assms(1-8)] memory_cache_is_file_sum [OF assms(9)] w)
  have scen: "wrap64 (2147483648 - 1073741824 + 104857600) = 1178599424"
    by (simp add: wrap64_def)
  show ?thesis using eq scen by (auto simp add: wrap64_id)
qed

theorem v2_memory_with_cache_witness:
  "getAvailableAndTotalV2 (demo_env scenario_mem_files) demo_ctx ''ram'' False
     = Returns (Inr (2147483648, 1178599424))"
proof -
  have path: "FindCGroupV2Path (demo_env scenario_mem_files) (Itoa 1234)
                (if ([]::string) = [] then ''/sys/fs/cgroup'' else [])
              = (''/sys/fs/cgroup/demo'', None)"
    by (simp add: Itoa_1234 find_demo_path)
  have ctx: "NSTargetFlagName demo_ctx = AnyStr ''1234''" "cgroup_root demo_ctx = AnyStr []"
    by (simp_all add: demo_ctx_def)
  have ne: "''/sys/fs/cgroup/demo'' \<noteq> []" "(2147483648::int) \<noteq> 0" by simp_all
  have stat: "files (demo_env scenario_mem_files) (''/sys/fs/cgroup/demo'' @ ''/memory.stat'')
                = Some (''anon 966367641'' @ [newline] @ ''file 104857600'' @ [newline]
                          @ ''file_mapped 52428800'' @ [newline])"
    by (simp add: demo_env_def demo_fs_def scenario_mem_files_def)
  have sum: "(104857600::int) = sum_list (map file_line_value
               (Split newline (''anon 966367641'' @ [newline] @ ''file 104857600'' @ [newline]
                          @ ''file_mapped 52428800'' @ [newline])))"
    by (simp add: file_line_value_def HasPrefix_def isSpace_def newline_def ParseInt_def)
  have flags: "''ram'' = ''ram''" "\<not> False" by simp_all
  show ?thesis
    using v2_memory_with_cache [OF ctx(1) Atoi_1234 ctx(2) path ne(1) scenario_limit ne(2)
        scenario_usage stat sum flags]
    by (simp add: wrap64_def)
qed

text \<open>
  Claim C8, as the code has it. The code computes the available memory as total minus
  usage, plus the cache under the ram policy, and does not bound the result by the
  total. The available memory is at most the total whenever the figures read are
  consistent: on the cgroup v2 path a limit above zero, a usage that is not negative and
  a file cache between zero and the usage; on the cgroup v1 path a limit and a usage
  below \<open>2 ^ 63\<close> and a cache of at most the usage; on the host path a total below
  \<open>2 ^ 63\<close> and free, buffer and cached memory that together do not exceed it.
\<close>

theorem available_le_total_when_consistent:
  "(NSTargetFlagName ctx = AnyStr pid \<and> Atoi pid = Inr p \<and> cgroup_root ctx = AnyStr r
      \<and> FindCGroupV2Path env (Itoa p) (if r = [] then ''/sys/fs/cgroup'' else r) = (cgroupPath, None)
      \<and> cgroupPath \<noteq> []
      \<and> MemoryLimit env cgroupPath = (limit, True, None) \<and> 0 < limit
      \<and> getCGroupV2MemoryUsage env cgroupPath = Inr usage \<and> 0 \<le> usage
      \<and> (case getCGroupV2MemoryCache env cgroupPath of
            Inr cache \<Rightarrow> 0 \<le> cache \<and> cache \<le> usage | Inl err \<Rightarrow> True)
    \<longrightarrow> (\<exists>available. getAvailableAndTotalV2 env ctx burnMemMode includeBufferCache
                          = Returns (Inr (limit, available)) \<and> available \<le> limit))
   \<and> (cgroups_Load env cgroupRoot p1 = None \<and> cgroup_Stat env cgroupRoot p1 = Inr (Some m)
      \<and> Memory_Usage_Limit m < PageCounterMax
      \<and> Memory_Usage_Limit m < 2 ^ 63 \<and> Memory_Usage_Usage m < 2 ^ 63
      \<and> Memory_Cache m \<le> Memory_Usage_Usage m
    \<longrightarrow> (\<exists>total available.
           getAvailableAndTotalV1 PageCounterMax env burnMemMode includeBufferCache p1 cgroupRoot
             = Inr (total, available) \<and> available \<le> total))
   \<and> (VirtualMemory env = Inr vm \<and> vm_Total vm < 2 ^ 63
      \<and> vm_Free vm + vm_Buffers vm + vm_Cached vm \<le> vm_Total vm
    \<longrightarrow> (\<exists>total available.
           getSystemMemory env burnMemMode includeBufferCache = Inr (total, available)
           \<and> available \<le> total))"
  using v2_available_le_total [of ctx pid p r env cgroupPath limit usage burnMemMode includeBufferCache]
        v1_available_le_total [of env cgroupRoot p1 m PageCounterMax burnMemMode includeBufferCache]
        host_available_le_total [of env vm burnMemMode includeBufferCache]
  by blast

theorem available_le_total_when_consistent_witness:
  "(\<exists>available. getAvailableAndTotalV2 full_env demo_ctx ''ram'' False
                   = Returns (Inr (2147483648, available)) \<and> available \<le> 2147483648)
   \<and> (\<exists>total available.
         getAvailableAndTotalV1 9223372036854770000 full_env ''ram'' False 1234 ''/sys/fs/cgroup''
           = Inr (total, available) \<and> available \<le> total)
   \<and> (\<exists>total available.
         getSystemMemory full_env ''ram'' False = Inr (total, available) \<and> available \<le> total)"
proof -
  have h2: "NSTargetFlagName demo_ctx = AnyStr ''1234'' \<and> Atoi ''1234'' = Inr 1234
      \<and> cgroup_root demo_ctx = AnyStr []
      \<and> FindCGroupV2Path full_env (Itoa 1234) (if ([]::string) = [] then ''/sys/fs/cgroup'' else [])
          = (''/sys/fs/cgroup/demo'', None)
      \<and> ''/sys/fs/cgroup/demo'' \<noteq> []
      \<and> MemoryLimit full_env ''/sys/fs/cgroup/demo'' = (2147483648, True, None) \<and> (0::int) < 2147483648
      \<and> getCGroupV2MemoryUsage full_env ''/sys/fs/cgroup/demo'' = Inr 1073741824 \<and> (0::int) \<le> 1073741824
      \<and> (case getCGroupV2MemoryCache full_env ''/sys/fs/cgroup/demo'' of
            Inr cache \<Rightarrow> 0 \<le> cache \<and> cache \<le> 1073741824 | Inl err \<Rightarrow> True)"
    by (simp add: demo_ctx_def Atoi_1234 Itoa_1234 find_full_path full_limit full_usage full_cache)
  have h1: "cgroups_Load full_env ''/sys/fs/cgroup'' 1234 = None
      \<and> cgroup_Stat full_env ''/sys/fs/cgroup'' 1234 = Inr (Some demo_metrics)
      \<and> Memory_Usage_Limit demo_metrics < 9223372036854770000
      \<and> Memory_Usage_Limit demo_metrics < 2 ^ 63 \<and> Memory_Usage_Usage demo_metrics < 2 ^ 63
      \<and> Memory_Cache demo_metrics \<le> Memory_Usage_Usage demo_metrics"
    by (simp add: full_env_def demo_metrics_def)
  have hh: "VirtualMemory full_env = Inr demo_vm \<and> vm_Total demo_vm < 2 ^ 63
      \<and> vm_Free demo_vm + vm_Buffers demo_vm + vm_Cached demo_vm \<le> vm_Total demo_vm"
    by (simp add: full_env_def demo_vm_def)
  show ?thesis
    using available_le_total_when_consistent [of demo_ctx "''1234''" 1234 "[]" full_env
        "''/sys/fs/cgroup/demo''" 2147483648 1073741824 "''ram''" False "''/sys/fs/cgroup''" 1234
        demo_metrics 9223372036854770000 demo_vm] h2 h1 hh
    by blast
qed

text \<open>
  Without that consistency the invariant fails: \<open>memory.current\<close> is read before
  \<open>memory.stat\<close>, and a file cache of 209715200 against a usage of 104857600 and a
  limit of 1073741824 gives more available memory than total.
\<close>

theorem available_le_total_counterexample:
  "getAvailableAndTotalV2 (demo_env race_mem_files) demo_ctx ''ram'' False
     = Returns (Inr (1073741824, 1178599424))
   \<and> \<not> (1178599424 \<le> (1073741824::int))"
proof -
  have lim: "MemoryLimit (demo_env race_mem_files) ''/sys/fs/cgroup/demo'' = (1073741824, True, None)"
    by (simp add: MemoryLimit_def MemoryLimit_linux_def demo_env_def base_env_def demo_fs_def
        race_mem_files_def Join_def Clean_def TrimSpace_def isSpace_def newline_def ParseInt_def)
  have use: "getCGroupV2MemoryUsage (demo_env race_mem_files) ''/sys/fs/cgroup/demo'' = Inr 104857600"
    by (simp add: getCGroupV2MemoryUsage_def demo_env_def base_env_def demo_fs_def
        race_mem_files_def TrimSpace_def isSpace_def newline_def ParseInt_def)
  have cache: "getCGroupV2MemoryCache (demo_env race_mem_files) ''/sys/fs/cgroup/demo'' = Inr 209715200"
    by (simp add: getCGroupV2MemoryCache_def demo_env_def base_env_def demo_fs_def
        race_mem_files_def cache_line_def HasPrefix_def isSpace_def newline_def ParseInt_def
        add64_def wrap64_def)
  have path: "FindCGroupV2Path (demo_env race_mem_files) (Itoa 1234)
                (if ([]::string) = [] then ''/sys/fs/cgroup'' else [])
              = (''/sys/fs/cgroup/demo'', None)"
    by (simp add: Itoa_1234 find_demo_path)
  have ctx: "NSTargetFlagName demo_ctx = AnyStr ''1234''" "cgroup_root demo_ctx = AnyStr []"
    by (simp_all add: demo_ctx_def)
  have ne: "''/sys/fs/cgroup/demo'' \<noteq> []" "(1073741824::int) \<noteq> 0" by simp_all
  show ?thesis
    by (simp add: v2_memory_cases [OF ctx(1) Atoi_1234 ctx(2) path ne(1) lim ne(2) use] cache
        add64_def sub64_def wrap64_def)
qed


section \<open>Version detection and its use by the resolvers\<close>



text \<open>
  Claim C6 at a mount table in hybrid layout. There is no \<open>cgroup.controllers\<close> under
  the root, and the mount table has an entry of filesystem type \<open>cgroup2\<close> mounted
  under the root, so the second step of the specified order applies. The code compares
  the seventh field of the line, here the optional field \<open>shared:10\<close>, with \<open>cgroup2\<close>,
  finds no match in either scan and answers \<open>CGroupV1\<close> by default.
\<close>

theorem cgroup2_mount_not_detected:
  "stat_ok hybrid_env (Join [''/sys/fs/cgroup'', ''cgroup.controllers'']) = False
   \<and> mountinfo hybrid_env = Some [''25 30 0:23 / /sys/fs/cgroup ro,nosuid,nodev,noexec shared:9 - tmpfs tmpfs ro,mode=755'', unified_line]
   \<and> proc_mountinfo_fstype unified_line = Some CGroupV2FS
   \<and> Fields unified_line ! 4 = ''/sys/fs/cgroup/unified''
   \<and> HasPrefix (Fields unified_line ! 4) ''/sys/fs/cgroup''
   \<and> Fields unified_line ! 6 = ''shared:10''
   \<and> DetectCGroupVersion hybrid_env ''/sys/fs/cgroup'' = CGroupV1"
  by (simp add: hybrid_env_def base_env_def unified_line_def proc_mountinfo_fstype_def
      isSpace_def CGroupV2FS_def CGroupV1FS_def HasPrefix_def DetectCGroupVersion_def
      DetectCGroupVersion_linux_def Join_def Clean_def)

section \<open>The usage sampler\<close>

text \<open>
  Claim C7. When both readings of \<open>cpu.stat\<close> hold a \<open>usage_usec\<close> other than zero
  (a zero reading is replaced by the sum of \<open>user_usec\<close> and \<open>system_usec\<close>), the
  cgroup v2 sampler returns the difference of the two readings, divided by 1000000,
  times 100, divided by the core count, in \<open>float64\<close> arithmetic. For the readings
  1000000 and 1500000 and two cores, every arithmetic that is exact on the numbers
  involved, as binary64 is, gives 25.
\<close>

theorem v2_usage_is_delta_over_entitlement:
  fixes F :: "real float64_lib"
  assumes "files env (Join [cgroupPath, ''cpu.stat'']) = Some content1"
      and "files_later env (Join [cgroupPath, ''cpu.stat'']) = Some content2"
      and "foldl cpu_stat_line (0, 0, 0) (Split newline content1) = (usage1, user1, system1)"
      and "usage1 \<noteq> 0"
      and "foldl cpu_stat_line (0, 0, 0) (Split newline content2) = (usage2, user2, system2)"
      and "usage2 \<noteq> 0"
  shows "getCGroupV2CPUUsage F env cgroupPath cnt
           = Inr (f_div F (f_mul F (f_div F (f_of_int F (sub64 usage2 usage1)) (f_of_int F 1000000))
                                  (f_of_int F 100))
                          (f_of_int F cnt))
         \<and> (usage1 = 1000000 \<and> usage2 = 1500000 \<and> cnt = 2
             \<and> f_of_int F 500000 = 500000 \<and> f_of_int F 1000000 = 1000000
             \<and> f_of_int F 100 = 100 \<and> f_of_int F 2 = 2
             \<and> f_div F 500000 1000000 = 1 / 2 \<and> f_mul F (1 / 2) 100 = 50 \<and> f_div F 50 2 = 25
            \<longrightarrow> getCGroupV2CPUUsage F env cgroupPath cnt = Inr 25)"
proof -
  have eq: "getCGroupV2CPUUsage F env cgroupPath cnt
           = Inr (f_div F (f_mul F (f_div F (f_of_int F (sub64 usage2 usage1)) (f_of_int F 1000000))
                                  (f_of_int F 100))
                          (f_of_int F cnt))"
    using assms by (simp add: getCGroupV2CPUUsage_def cpu_stat_total_def Let_def)
  have d: "sub64 1500000 1000000 = 500000" by (simp add: sub64_def wrap64_def)
  have scen: "getCGroupV2CPUUsage F env cgroupPath cnt = Inr 25"
    if "usage1 = 1000000" "usage2 = 1500000" "cnt = 2"
       "f_of_int F 500000 = 500000" "f_of_int F 1000000 = 1000000"
       "f_of_int F 100 = 100" "f_of_int F 2 = 2"
       "f_div F 500000 1000000 = 1 / 2" "f_mul F (1 / 2) 100 = 50" "f_div F 50 2 = 25"
  proof -
    have "getCGroupV2CPUUsage F env cgroupPath cnt
            = Inr (f_div F (f_mul F (f_div F (f_of_int F 500000) (f_of_int F 1000000))
                                   (f_of_int F 100))
                           (f_of_int F 2))"
      using eq d that(1-3) by simp
    also have "\<dots> = Inr 25"
      by (simp only: that(4-10))
    finally show ?thesis .
  qed
  show ?thesis using eq scen by blast
qed

theorem v2_usage_is_delta_over_entitlement_witness:
  "getCGroupV2CPUUsage real_lib sample_env ''/sys/fs/cgroup/demo'' 2 = Inr 25"
proof -
  have j: "Join [''/sys/fs/cgroup/demo'', ''cpu.stat''] = ''/sys/fs/cgroup/demo/cpu.stat''"
    by (simp add: Join_def Clean_def)
  have f1: "files sample_env (Join [''/sys/fs/cgroup/demo'', ''cpu.stat''])
              = Some (''usage_usec 1000000'' @ [newline] @ ''user_usec 600000''
                        @ [newline] @ ''system_usec 400000'' @ [newline])"
    by (simp add: j sample_env_def demo_fs_def)
  have f2: "files_later sample_env (Join [''/sys/fs/cgroup/demo'', ''cpu.stat''])
              = Some (''usage_usec 1500000'' @ [newline] @ ''user_usec 900000''
                        @ [newline] @ ''system_usec 600000'' @ [newline])"
    by (simp add: j sample_env_def demo_fs_def)
  have p1: "foldl cpu_stat_line (0, 0, 0)
              (Split newline (''usage_usec 1000000'' @ [newline] @ ''user_usec 600000''
                        @ [newline] @ ''system_usec 400000'' @ [newline]))
            = (1000000, 600000, 400000)"
    by (simp add: cpu_stat_line_def TrimSpace_def isSpace_def newline_def ParseInt_def)
  have p2: "foldl cpu_stat_line (0, 0, 0)
              (Split newline (''usage_usec 1500000'' @ [newline] @ ''user_usec 900000''
                        @ [newline] @ ''system_usec 600000'' @ [newline]))
            = (1500000, 900000, 600000)"
    by (simp add: cpu_stat_line_def TrimSpace_def isSpace_def newline_def ParseInt_def)
  have n: "(1000000::int) \<noteq> 0" "(1500000::int) \<noteq> 0" by simp_all
  have ops: "(1000000::int) = 1000000 \<and> (1500000::int) = 1500000 \<and> (2::int) = 2
             \<and> f_of_int real_lib 500000 = 500000 \<and> f_of_int real_lib 1000000 = 1000000
             \<and> f_of_int real_lib 100 = 100 \<and> f_of_int real_lib 2 = 2
             \<and> f_div real_lib 500000 1000000 = 1 / 2 \<and> f_mul real_lib (1 / 2) 100 = 50
             \<and> f_div real_lib 50 2 = 25"
    by (simp add: real_lib_def)
  show ?thesis
    using v2_usage_is_delta_over_entitlement [OF f1 f2 p1 n(1) p2 n(2), of real_lib 2] ops
    by blast
qed



text \<open>
  Claim C10, as the code has it. Without a pid and in per-core mode, an index above the
  number of results ends the process, an index equal to that number or below zero
  passes the guard and panics at the indexing, and every other index returns its result.
\<close>

theorem percpu_index_outcomes:
  assumes "cpuCount ctx = AnyInt cnt" and "NSTargetFlagName ctx = AnyNil"
      and "cpu_Percent env True = Inr totalCpuPercent"
  shows "getUsed F env ctx True cpuIndex
           = (if cpuIndex > int (length totalCpuPercent) then Exits
              else if cpuIndex = int (length totalCpuPercent) \<or> cpuIndex < 0 then Panics
              else Returns (totalCpuPercent ! nat cpuIndex))"
  using assms by (auto simp add: getUsed_def getUsed_host_def index_def)

theorem percpu_index_outcomes_witness:
  "getUsed real_lib percpu_env host_ctx True 2 = Panics
   \<and> getUsed real_lib percpu_env host_ctx True (- 1) = Panics
   \<and> getUsed real_lib percpu_env host_ctx True 3 = Exits
   \<and> getUsed real_lib percpu_env host_ctx True 1 = Returns 34"
proof -
  have c: "cpuCount host_ctx = AnyInt 2" "NSTargetFlagName host_ctx = AnyNil"
    by (simp_all add: host_ctx_def)
  have p: "cpu_Percent percpu_env True = Inr [12, 34]"
    by (simp add: percpu_env_def)
  show ?thesis
    using percpu_index_outcomes [OF c p, of real_lib 2] percpu_index_outcomes [OF c p, of real_lib "- 1"]
          percpu_index_outcomes [OF c p, of real_lib 3] percpu_index_outcomes [OF c p, of real_lib 1]
    by simp
qed

text \<open>
  The length is not the only index that passes the guard and is out of range: \<open>-1\<close>
  does so too.
\<close>

theorem percpu_index_counterexample:
  "cpu_Percent percpu_env True = Inr [12, 34]
   \<and> \<not> (- 1 > int (length [12, 34 :: real]))
   \<and> - 1 \<noteq> int (length [12, 34 :: real])
   \<and> getUsed real_lib percpu_env host_ctx True (- 1) = Panics"
  by (simp add: percpu_env_def host_ctx_def getUsed_def getUsed_host_def index_def)


end
